theory Spec2Isabelle
  imports Main "HOL-Library.Stream"
begin

section \<open>C strings and character arrays\<close>

text \<open>
  The plugin is C++ over GLib: every string it touches is a NUL-terminated byte string.
  A \<^typ>\<open>string\<close> below is the content of a C string (its bytes before the terminator);
  a \<^typ>\<open>char list\<close> that stands for a fixed-size array (\<^verbatim>\<open>char version[65]\<close>) holds all
  the bytes of the array, terminator and padding included.
\<close>

definition NUL :: char where
  "NUL = CHR 0x00"

text \<open>
  Reading a character array as a C string (what \<^verbatim>\<open>%s\<close> does): the bytes before the first
  NUL. An array that holds no NUL makes the read run past its end, which C leaves
  undefined; the model reports it as a fault instead of inventing a value.
\<close>

datatype fault = ReadPastEnd

definition c_str :: "char list \<Rightarrow> fault + string" where
  "c_str a = (if NUL \<in> set a then Inr (takeWhile (\<lambda>c. c \<noteq> NUL) a) else Inl ReadPastEnd)"

text \<open>
  \<^verbatim>\<open>strcmp\<close> of libc: bytes are compared as unsigned chars up to the first difference or
  the terminator. The end of the list is the terminator of a well-formed C string; a NUL
  inside the list ends the comparison there, as it would in memory.
\<close>

fun strcmp :: "string \<Rightarrow> string \<Rightarrow> int" where
  "strcmp [] [] = 0"
| "strcmp [] (b # bs) = 0 - of_char b"
| "strcmp (a # as) [] = of_char a"
| "strcmp (a # as) (b # bs) =
     (if a \<noteq> b then of_char a - of_char b
      else if a = NUL then 0
      else strcmp as bs)"

text \<open>
  \<^verbatim>\<open>g_strdup_printf\<close> with a format holding one \<^verbatim>\<open>%s\<close> conversion and one character
  array as its argument: the argument is read as a C string and put in place of the
  conversion.
\<close>

fun printf_s :: "string \<Rightarrow> string \<Rightarrow> string" where
  "printf_s [] s = []"
| "printf_s (c # fs) s =
     (if c = CHR ''%'' \<and> (case fs of [] \<Rightarrow> False | d # ds \<Rightarrow> d = CHR ''s'')
      then s @ tl fs
      else c # printf_s fs s)"

definition g_strdup_printf :: "string \<Rightarrow> char list \<Rightarrow> fault + string" where
  "g_strdup_printf fmt a = (case c_str a of Inl f \<Rightarrow> Inl f | Inr s \<Rightarrow> Inr (printf_s fmt s))"


section \<open>The operating system: uname\<close>

text \<open>
  \<^verbatim>\<open>struct utsname\<close> of \<^verbatim>\<open><sys/utsname.h>\<close> on Linux: six arrays of 65 bytes. The
  structure in user space is plain memory, so its fields are arbitrary arrays.
\<close>

definition UTSNAME_LENGTH :: nat where
  "UTSNAME_LENGTH = 65"

record utsname =
  sysname :: "char list"
  nodename :: "char list"
  release :: "char list"
  version :: "char list"
  machine :: "char list"
  domainname :: "char list"

text \<open>The value of \<^verbatim>\<open>struct utsname uname_data = {}\<close>: every byte is zero.\<close>

definition utsname_zero :: utsname where
  "utsname_zero =
     \<lparr>sysname = replicate UTSNAME_LENGTH NUL, nodename = replicate UTSNAME_LENGTH NUL,
      release = replicate UTSNAME_LENGTH NUL, version = replicate UTSNAME_LENGTH NUL,
      machine = replicate UTSNAME_LENGTH NUL, domainname = replicate UTSNAME_LENGTH NUL\<rparr>"

text \<open>
  What the kernel keeps in a field of its own structure: 65 bytes with a terminator
  among them (uname(2): the arrays are NUL-terminated). The type carries that guarantee,
  so no theorem below has to assume it.
\<close>

typedef uts_field = "{a :: char list. length a = UTSNAME_LENGTH \<and> NUL \<in> set a}"
  by (rule exI [of _ "replicate UTSNAME_LENGTH NUL"]) (simp add: UTSNAME_LENGTH_def)

setup_lifting type_definition_uts_field

text \<open>
  The field that holds the C string \<open>s\<close>: its bytes (at most 64, none of them NUL),
  then NUL up to the end of the array.
\<close>

lift_definition uts_field_of :: "string \<Rightarrow> uts_field" is
  "\<lambda>s. take 64 (takeWhile (\<lambda>c. c \<noteq> NUL) s) @
       replicate (UTSNAME_LENGTH - length (take 64 (takeWhile (\<lambda>c. c \<noteq> NUL) s))) NUL"
  by (auto simp: UTSNAME_LENGTH_def)

record new_utsname =
  k_sysname :: uts_field
  k_nodename :: uts_field
  k_release :: uts_field
  k_version :: uts_field
  k_machine :: uts_field
  k_domainname :: uts_field

text \<open>
  One call of \<^verbatim>\<open>uname\<close> either fails (it returns -1 and writes nothing) or succeeds (it
  returns 0 and copies the kernel's structure into the caller's).
\<close>

datatype uname_outcome = UnameFails | UnameOk new_utsname

definition copy_to_user :: "new_utsname \<Rightarrow> utsname" where
  "copy_to_user k =
     \<lparr>sysname = Rep_uts_field (k_sysname k), nodename = Rep_uts_field (k_nodename k),
      release = Rep_uts_field (k_release k), version = Rep_uts_field (k_version k),
      machine = Rep_uts_field (k_machine k), domainname = Rep_uts_field (k_domainname k)\<rparr>"


section \<open>The Flutter Linux embedder\<close>

text \<open>
  The types of \<^verbatim>\<open>flutter_linux\<close> the plugin uses. \<^verbatim>\<open>FlValue\<close> is the embedder's dynamic
  value (floats and the typed lists are left out: the plugin builds strings only), and a
  method response is one of the embedder's three response classes.
\<close>

datatype FlValue =
    FlValueNull
  | FlValueBool bool
  | FlValueInt int
  | FlValueString string
  | FlValueList "FlValue list"
  | FlValueMap "(FlValue \<times> FlValue) list"

datatype FlMethodResponse =
    FlMethodSuccessResponse FlValue
  | FlMethodErrorResponse string string FlValue
  | FlMethodNotImplementedResponse

datatype response_kind = Success | Error | NotImplemented

fun kind_of :: "FlMethodResponse \<Rightarrow> response_kind" where
  "kind_of (FlMethodSuccessResponse v) = Success"
| "kind_of (FlMethodErrorResponse c m d) = Error"
| "kind_of FlMethodNotImplementedResponse = NotImplemented"

definition fl_value_new_string :: "string \<Rightarrow> FlValue" where
  "fl_value_new_string s = FlValueString s"

definition fl_method_success_response_new :: "FlValue \<Rightarrow> FlMethodResponse" where
  "fl_method_success_response_new result = FlMethodSuccessResponse result"

definition fl_method_not_implemented_response_new :: FlMethodResponse where
  "fl_method_not_implemented_response_new = FlMethodNotImplementedResponse"

text \<open>A method channel object: its name and its codec.\<close>

datatype FlMethodCodec = FlStandardMethodCodec | FlJsonMethodCodec

definition fl_standard_method_codec_new :: FlMethodCodec where
  "fl_standard_method_codec_new = FlStandardMethodCodec"

record FlMethodChannel =
  channel_name :: string
  channel_codec :: FlMethodCodec

text \<open>
  A method call as the embedder hands it to a handler: the method's name, the argument
  payload, and the handle under which the channel expects the answer.
\<close>

record FlMethodCall =
  method_name :: string
  method_args :: FlValue
  response_handle :: nat

definition fl_method_call_get_name :: "FlMethodCall \<Rightarrow> string" where
  "fl_method_call_get_name method_call = method_name method_call"


section \<open>The world of a call\<close>

text \<open>
  Everything outside the handler's locals that a call can read or change: the outcomes of
  the \<^verbatim>\<open>uname\<close> calls the process has still to make (the first is the next call's), and
  the responses sent through the channel so far, each with the handle it answers.
\<close>

record world =
  uname_results :: "uname_outcome stream"
  sent :: "(nat \<times> FlMethodResponse) list"

definition uname :: "utsname \<Rightarrow> world \<Rightarrow> (int \<times> utsname) \<times> world" where
  "uname buf w =
     (case shd (uname_results w) of
        UnameFails \<Rightarrow> ((- 1, buf), w\<lparr>uname_results := stl (uname_results w)\<rparr>)
      | UnameOk k \<Rightarrow> ((0, copy_to_user k), w\<lparr>uname_results := stl (uname_results w)\<rparr>))"

text \<open>
  \<^verbatim>\<open>fl_method_call_respond\<close>: a null response is refused (the embedder's
  \<^verbatim>\<open>g_return_val_if_fail\<close>) and nothing is sent; any other response goes out under the
  call's handle. \<open>None\<close> is the null pointer.
\<close>

definition fl_method_call_respond ::
  "FlMethodCall \<Rightarrow> FlMethodResponse option \<Rightarrow> world \<Rightarrow> bool \<times> world" where
  "fl_method_call_respond method_call response w =
     (case response of
        None \<Rightarrow> (False, w)
      | Some r \<Rightarrow> (True, w\<lparr>sent := sent w @ [(response_handle method_call, r)]\<rparr>))"


section \<open>The plugin (linux/cozy\_data\_plugin.cc)\<close>

text \<open>
  \<^verbatim>\<open>struct _CozyDataPlugin\<close> has the GObject header and no field of its own. Reference
  counting is memory management and is not modelled.
\<close>

datatype GObject = GObject

record CozyDataPlugin =
  parent_instance :: GObject

text \<open>
  \<^verbatim>\<open>get_platform_version\<close>: a zeroed \<^verbatim>\<open>utsname\<close>, one call of \<^verbatim>\<open>uname\<close> whose return
  value is dropped, then the string \<^verbatim>\<open>"Linux %s"\<close> over the \<^verbatim>\<open>version\<close> array, wrapped
  in a success response.
\<close>

definition get_platform_version :: "world \<Rightarrow> fault + (FlMethodResponse \<times> world)" where
  "get_platform_version w =
     (let uname_data = utsname_zero;
          ((rc, uname_data), w) = uname uname_data w
      in case g_strdup_printf ''Linux %s'' (version uname_data) of
           Inl f \<Rightarrow> Inl f
         | Inr version_str \<Rightarrow>
             (let result = fl_value_new_string version_str
              in Inr (fl_method_success_response_new result, w)))"

text \<open>
  \<^verbatim>\<open>cozy_data_plugin_handle_method_call\<close>, in the two steps of its body. First the local
  \<^verbatim>\<open>response\<close> is set: it starts as the null pointer and each branch of the \<^verbatim>\<open>if\<close>
  assigns it. Then it is handed to \<^verbatim>\<open>fl_method_call_respond\<close>, whose return value is
  dropped.
\<close>

definition handle_method_call_response ::
  "CozyDataPlugin \<Rightarrow> FlMethodCall \<Rightarrow> world \<Rightarrow> fault + (FlMethodResponse option \<times> world)" where
  "handle_method_call_response self method_call w =
     (let response = (None :: FlMethodResponse option);
          method = fl_method_call_get_name method_call
      in if strcmp method ''getPlatformVersion'' = 0
         then (case get_platform_version w of
                 Inl f \<Rightarrow> Inl f
               | Inr (r, w') \<Rightarrow> (let response = Some r in Inr (response, w')))
         else (let response = Some fl_method_not_implemented_response_new
               in Inr (response, w)))"

definition cozy_data_plugin_handle_method_call ::
  "CozyDataPlugin \<Rightarrow> FlMethodCall \<Rightarrow> world \<Rightarrow> fault + world" where
  "cozy_data_plugin_handle_method_call self method_call w =
     (case handle_method_call_response self method_call w of
        Inl f \<Rightarrow> Inl f
      | Inr (response, w') \<Rightarrow> Inr (snd (fl_method_call_respond method_call response w')))"

text \<open>
  \<^verbatim>\<open>method_call_cb\<close>, the callback given to the channel: the user data is the plugin.
  \<^verbatim>\<open>COZY_DATA_PLUGIN\<close> is GObject's checked cast.
\<close>

definition COZY_DATA_PLUGIN :: "CozyDataPlugin \<Rightarrow> CozyDataPlugin" where
  "COZY_DATA_PLUGIN obj = obj"

definition method_call_cb ::
  "FlMethodChannel \<Rightarrow> FlMethodCall \<Rightarrow> CozyDataPlugin \<Rightarrow> world \<Rightarrow> fault + world" where
  "method_call_cb channel method_call user_data w =
     (let plugin = COZY_DATA_PLUGIN user_data
      in cozy_data_plugin_handle_method_call plugin method_call w)"

text \<open>
  The embedder's side of a channel: it invokes the callback once for each inbound call,
  one call at a time, in the order of arrival.
\<close>

fun deliver_calls ::
  "FlMethodChannel \<Rightarrow> CozyDataPlugin \<Rightarrow> FlMethodCall list \<Rightarrow> world \<Rightarrow> fault + world" where
  "deliver_calls channel user_data [] w = Inr w"
| "deliver_calls channel user_data (c # cs) w =
     (case method_call_cb channel c user_data w of
        Inl f \<Rightarrow> Inl f
      | Inr w' \<Rightarrow> deliver_calls channel user_data cs w')"

text \<open>
  Registration. The registrar's messenger keeps, for each channel name, the handler set
  on it: the callback and its user data. \<^verbatim>\<open>fl_method_channel_new\<close> makes a channel object
  for a name and a codec; \<^verbatim>\<open>fl_method_channel_set_method_call_handler\<close> installs the
  callback under the channel's name.
\<close>

record method_call_handler =
  handler_cb :: "FlMethodChannel \<Rightarrow> FlMethodCall \<Rightarrow> CozyDataPlugin \<Rightarrow> world \<Rightarrow> fault + world"
  handler_channel :: FlMethodChannel
  handler_user_data :: CozyDataPlugin

record FlPluginRegistrar =
  messenger :: "string \<rightharpoonup> method_call_handler"

definition fl_plugin_registrar_get_messenger ::
  "FlPluginRegistrar \<Rightarrow> (string \<rightharpoonup> method_call_handler)" where
  "fl_plugin_registrar_get_messenger registrar = messenger registrar"

definition fl_method_channel_new ::
  "(string \<rightharpoonup> method_call_handler) \<Rightarrow> string \<Rightarrow> FlMethodCodec \<Rightarrow> FlMethodChannel" where
  "fl_method_channel_new m name codec = \<lparr>channel_name = name, channel_codec = codec\<rparr>"

definition fl_method_channel_set_method_call_handler ::
  "FlMethodChannel \<Rightarrow>
   (FlMethodChannel \<Rightarrow> FlMethodCall \<Rightarrow> CozyDataPlugin \<Rightarrow> world \<Rightarrow> fault + world) \<Rightarrow>
   CozyDataPlugin \<Rightarrow> (string \<rightharpoonup> method_call_handler) \<Rightarrow> (string \<rightharpoonup> method_call_handler)" where
  "fl_method_channel_set_method_call_handler channel handler user_data m =
     m(channel_name channel \<mapsto>
         \<lparr>handler_cb = handler, handler_channel = channel, handler_user_data = user_data\<rparr>)"

text \<open>\<^verbatim>\<open>g_object_new(cozy_data_plugin_get_type(), nullptr)\<close>: a fresh instance; the
  instance initialiser \<^verbatim>\<open>cozy_data_plugin_init\<close> has an empty body.\<close>

definition g_object_new_cozy_data_plugin :: CozyDataPlugin where
  "g_object_new_cozy_data_plugin = \<lparr>parent_instance = GObject\<rparr>"

definition cozy_data_plugin_register_with_registrar ::
  "FlPluginRegistrar \<Rightarrow> FlPluginRegistrar" where
  "cozy_data_plugin_register_with_registrar registrar =
     (let plugin = COZY_DATA_PLUGIN g_object_new_cozy_data_plugin;
          codec = fl_standard_method_codec_new;
          channel = fl_method_channel_new (fl_plugin_registrar_get_messenger registrar)
                      ''cozy_data'' codec
      in registrar\<lparr>messenger :=
           fl_method_channel_set_method_call_handler channel method_call_cb plugin
             (fl_plugin_registrar_get_messenger registrar)\<rparr>)"


section \<open>Facts about the C library model\<close>

lemma of_char_int_eq_0_iff: "((of_char c :: int) = 0) = (c = NUL)"
proof -
  have "(of_char c :: int) = of_char NUL \<longleftrightarrow> c = NUL"
    by (rule of_char_eq_iff)
  then show ?thesis
    by (simp add: NUL_def)
qed

lemma strcmp_eq_0_iff:
  "NUL \<notin> set a \<Longrightarrow> NUL \<notin> set b \<Longrightarrow> (strcmp a b = 0) = (a = b)"
proof (induction a b rule: strcmp.induct)
  case 1
  then show ?case by simp
next
  case (2 b bs)
  then show ?case by (auto simp: of_char_int_eq_0_iff)
next
  case (3 a as)
  then show ?case by (auto simp: of_char_int_eq_0_iff)
next
  case (4 a as b bs)
  then show ?case by auto
qed

lemma getPlatformVersion_no_NUL: "NUL \<notin> set ''getPlatformVersion''"
  by (simp add: NUL_def)


section \<open>Facts about get\_platform\_version\<close>

lemma c_str_Rep_uts_field:
  "c_str (Rep_uts_field f) = Inr (takeWhile (\<lambda>c. c \<noteq> NUL) (Rep_uts_field f))"
  using Rep_uts_field [of f] by (simp add: c_str_def)

lemma c_str_zero_array: "c_str (replicate UTSNAME_LENGTH NUL) = Inr []"
  by (simp add: c_str_def UTSNAME_LENGTH_def)

lemma snd_uname: "snd (uname buf w) = w\<lparr>uname_results := stl (uname_results w)\<rparr>"
  by (simp add: uname_def split: uname_outcome.split)

lemma c_str_version_after_uname:
  "c_str (version (snd (fst (uname utsname_zero w)))) =
     Inr (takeWhile (\<lambda>c. c \<noteq> NUL) (version (snd (fst (uname utsname_zero w)))))"
proof (cases "shd (uname_results w)")
  case UnameFails
  then show ?thesis
    using c_str_zero_array by (simp add: uname_def utsname_zero_def)
next
  case (UnameOk k)
  then show ?thesis
    by (simp add: uname_def copy_to_user_def c_str_Rep_uts_field)
qed

lemma printf_s_Linux: "printf_s ''Linux %s'' s = ''Linux '' @ s"
  by simp

lemma get_platform_version_eq:
  "get_platform_version w =
     Inr (FlMethodSuccessResponse
            (FlValueString
               (''Linux '' @
                takeWhile (\<lambda>c. c \<noteq> NUL) (version (snd (fst (uname utsname_zero w)))))),
          w\<lparr>uname_results := stl (uname_results w)\<rparr>)"
proof -
  obtain rc buf w' where u: "uname utsname_zero w = ((rc, buf), w')"
    by (metis prod.exhaust)
  have w': "w' = w\<lparr>uname_results := stl (uname_results w)\<rparr>"
    using snd_uname [of utsname_zero w] u by simp
  have "c_str (version buf) = Inr (takeWhile (\<lambda>c. c \<noteq> NUL) (version buf))"
    using c_str_version_after_uname [of w] u by simp
  then show ?thesis
    using u w'
    by (simp add: get_platform_version_def g_strdup_printf_def printf_s_Linux
        fl_value_new_string_def fl_method_success_response_new_def del: printf_s.simps)
qed

lemma strcmp_getPlatformVersion: "strcmp ''getPlatformVersion'' ''getPlatformVersion'' = 0"
  by (simp add: NUL_def)


lemma c_str_uts_field_of:
  assumes "NUL \<notin> set s" and "length s \<le> 64"
  shows "c_str (Rep_uts_field (uts_field_of s)) = Inr s"
proof -
  have tw: "takeWhile (\<lambda>c. c \<noteq> NUL) s = s"
    using assms(1) by auto
  have rep: "Rep_uts_field (uts_field_of s) = s @ replicate (65 - length s) NUL"
    using assms(2) by (simp add: uts_field_of.rep_eq tw UTSNAME_LENGTH_def)
  have pos: "0 < 65 - length s"
    using assms(2) by simp
  have "\<And>x. x \<in> set s \<Longrightarrow> x \<noteq> NUL"
    using assms(1) by auto
  then have "takeWhile (\<lambda>c. c \<noteq> NUL) (s @ replicate (65 - length s) NUL) =
      s @ takeWhile (\<lambda>c. c \<noteq> NUL) (replicate (65 - length s) NUL)"
    by (rule takeWhile_append2)
  then have "takeWhile (\<lambda>c. c \<noteq> NUL) (s @ replicate (65 - length s) NUL) = s"
    by simp
  then show ?thesis
    using pos by (simp add: rep c_str_def)
qed

section \<open>Facts about the handler\<close>

lemma handle_method_call_eq:
  "cozy_data_plugin_handle_method_call self method_call w =
     Inr (if strcmp (method_name method_call) ''getPlatformVersion'' = 0
          then w\<lparr>uname_results := stl (uname_results w),
                 sent := sent w @
                   [(response_handle method_call,
                     FlMethodSuccessResponse
                       (FlValueString
                          (''Linux '' @
                           takeWhile (\<lambda>c. c \<noteq> NUL)
                             (version (snd (fst (uname utsname_zero w)))))))]\<rparr>
          else w\<lparr>sent := sent w @
                   [(response_handle method_call, FlMethodNotImplementedResponse)]\<rparr>)"
  by (simp add: cozy_data_plugin_handle_method_call_def handle_method_call_response_def
      fl_method_call_get_name_def fl_method_not_implemented_response_new_def
      fl_method_call_respond_def get_platform_version_eq del: strcmp.simps)

lemma handle_method_call_sent:
  "\<exists>w' r. cozy_data_plugin_handle_method_call self method_call w = Inr w' \<and>
          sent w' = sent w @ [(response_handle method_call, r)] \<and>
          ((\<exists>s. r = FlMethodSuccessResponse (FlValueString s) \<and>
                strcmp (method_name method_call) ''getPlatformVersion'' = 0) \<or>
           (r = FlMethodNotImplementedResponse \<and>
            strcmp (method_name method_call) ''getPlatformVersion'' \<noteq> 0))"
  by (simp add: handle_method_call_eq del: strcmp.simps)

lemma deliver_calls_handles:
  "\<exists>w'. deliver_calls channel user_data calls w = Inr w' \<and>
        map fst (sent w') = map fst (sent w) @ map response_handle calls"
proof (induction calls arbitrary: w)
  case Nil
  then show ?case by simp
next
  case (Cons c cs)
  obtain w1 r where
    h: "cozy_data_plugin_handle_method_call user_data c w = Inr w1"
    and s: "sent w1 = sent w @ [(response_handle c, r)]"
    using handle_method_call_sent [of user_data c w] by blast
  obtain w' where
    d: "deliver_calls channel user_data cs w1 = Inr w'"
    and m: "map fst (sent w') = map fst (sent w1) @ map response_handle cs"
    using Cons.IH [of w1] by blast
  have "deliver_calls channel user_data (c # cs) w = Inr w'"
    using h d by (simp add: method_call_cb_def COZY_DATA_PLUGIN_def)
  moreover have "map fst (sent w') = map fst (sent w) @ map response_handle (c # cs)"
    using m s by simp
  ultimately show ?case by blast
qed

lemma handle_method_call_kind:
  "\<exists>w' r. cozy_data_plugin_handle_method_call self method_call w = Inr w' \<and>
          sent w' = sent w @ [(response_handle method_call, r)] \<and>
          kind_of r =
            (if strcmp (method_name method_call) ''getPlatformVersion'' = 0
             then Success else NotImplemented)"
  by (simp add: handle_method_call_eq del: strcmp.simps)

lemma uname_fails:
  "shd (uname_results w) = UnameFails \<Longrightarrow> fst (uname buf w) = (- 1, buf)"
  by (simp add: uname_def)

lemma takeWhile_uts_field_of:
  assumes "NUL \<notin> set s" and "length s \<le> 64"
  shows "takeWhile (\<lambda>c. c \<noteq> NUL) (Rep_uts_field (uts_field_of s)) = s"
  using c_str_uts_field_of [OF assms] c_str_Rep_uts_field [of "uts_field_of s"] by simp

lemma uname_fails_unterminated:
  assumes "shd (uname_results w) = UnameFails" and "NUL \<notin> set (version buf)"
  shows "g_strdup_printf fmt (version (snd (fst (uname buf w)))) = Inl ReadPastEnd"
  using assms by (simp add: uname_def g_strdup_printf_def c_str_def)

section \<open>Unrecognised methods\<close>

text \<open>
  C1. For every method name other than the exact string "getPlatformVersion" (a C string:
  no NUL among its bytes), whatever the plugin instance, the arguments, the handle and the
  world, the handler sends the not-implemented response under the call's handle and
  touches nothing else; the names "ping" and "" are two such names.
\<close>

theorem unknown_method_not_implemented:
  assumes "NUL \<notin> set (method_name method_call)"
    and "method_name method_call \<noteq> ''getPlatformVersion''"
  shows "cozy_data_plugin_handle_method_call self method_call w =
           Inr (w\<lparr>sent := sent w @ [(response_handle method_call, FlMethodNotImplementedResponse)]\<rparr>)"
proof -
  have "strcmp (method_name method_call) ''getPlatformVersion'' \<noteq> 0"
    using assms strcmp_eq_0_iff [OF assms(1) getPlatformVersion_no_NUL] by simp
  then show ?thesis
    by (simp add: cozy_data_plugin_handle_method_call_def handle_method_call_response_def
        fl_method_call_get_name_def fl_method_not_implemented_response_new_def
        fl_method_call_respond_def)
qed

theorem unknown_method_not_implemented_witness:
  "NUL \<notin> set ''ping'' \<and> ''ping'' \<noteq> ''getPlatformVersion'' \<and>
   cozy_data_plugin_handle_method_call \<lparr>parent_instance = GObject\<rparr>
     \<lparr>method_name = ''ping'', method_args = FlValueNull, response_handle = 7\<rparr>
     \<lparr>uname_results = sconst UnameFails, sent = []\<rparr> =
   Inr \<lparr>uname_results = sconst UnameFails, sent = [(7, FlMethodNotImplementedResponse)]\<rparr> \<and>
   NUL \<notin> set [] \<and> [] \<noteq> ''getPlatformVersion'' \<and>
   cozy_data_plugin_handle_method_call \<lparr>parent_instance = GObject\<rparr>
     \<lparr>method_name = [], method_args = FlValueString ''x'', response_handle = 8\<rparr>
     \<lparr>uname_results = sconst UnameFails, sent = []\<rparr> =
   Inr \<lparr>uname_results = sconst UnameFails, sent = [(8, FlMethodNotImplementedResponse)]\<rparr>"
  using unknown_method_not_implemented [of
      "\<lparr>method_name = ''ping'', method_args = FlValueNull, response_handle = 7\<rparr>"
      "\<lparr>parent_instance = GObject\<rparr>" "\<lparr>uname_results = sconst UnameFails, sent = []\<rparr>"]
    unknown_method_not_implemented [of
      "\<lparr>method_name = [], method_args = FlValueString ''x'', response_handle = 8\<rparr>"
      "\<lparr>parent_instance = GObject\<rparr>" "\<lparr>uname_results = sconst UnameFails, sent = []\<rparr>"]
  by (simp add: NUL_def)

section \<open>The recognised method\<close>

text \<open>
  C2. Dispatching "getPlatformVersion" (whatever the instance, the arguments, the handle
  and the world) sends a success response whose payload is a string value, not the null
  value: "Linux " followed by the C string \<open>v\<close> read from the version array after the
  uname call. The read is always defined. The payload is therefore never empty; only its
  version segment \<open>v\<close> can be, and that is the operating system's data.
\<close>

theorem getPlatformVersion_success:
  "\<exists>v. c_str (version (snd (fst (uname utsname_zero w)))) = Inr v \<and>
       cozy_data_plugin_handle_method_call self
         \<lparr>method_name = ''getPlatformVersion'', method_args = args, response_handle = h\<rparr> w =
       Inr (w\<lparr>uname_results := stl (uname_results w),
              sent := sent w @
                [(h, FlMethodSuccessResponse (FlValueString (''Linux '' @ v)))]\<rparr>)"
  using c_str_version_after_uname [of w]
  by (simp add: handle_method_call_eq strcmp_getPlatformVersion del: strcmp.simps)

text \<open>
  C3 (amended). The output has the form "Linux <version string>", where the version
  string is the \<^verbatim>\<open>version\<close> field of \<^verbatim>\<open>utsname\<close> (the kernel's build string, what
  \<^verbatim>\<open>uname -v\<close> prints): on a host where uname succeeds and that field holds the C string
  \<open>v\<close>, dispatching "getPlatformVersion" sends the success response with the string
  "Linux " followed by \<open>v\<close>. The \<^verbatim>\<open>release\<close> field, where a Linux host reports a
  string such as "5.15.0-generic", plays no part.
\<close>

theorem platform_version_format:
  assumes "shd (uname_results w) = UnameOk k"
    and "c_str (Rep_uts_field (k_version k)) = Inr v"
    and "method_name method_call = ''getPlatformVersion''"
  shows "cozy_data_plugin_handle_method_call self method_call w =
           Inr (w\<lparr>uname_results := stl (uname_results w),
                  sent := sent w @
                    [(response_handle method_call,
                      FlMethodSuccessResponse (FlValueString (''Linux '' @ v)))]\<rparr>)"
proof -
  have "version (snd (fst (uname utsname_zero w))) = Rep_uts_field (k_version k)"
    using assms(1) by (simp add: uname_def copy_to_user_def)
  moreover have "takeWhile (\<lambda>c. c \<noteq> NUL) (Rep_uts_field (k_version k)) = v"
    using assms(2) c_str_Rep_uts_field [of "k_version k"] by simp
  ultimately show ?thesis
    using assms(3)
    by (simp add: handle_method_call_eq strcmp_getPlatformVersion del: strcmp.simps)
qed

text \<open>
  A host with release "5.15.0-generic" and version "#1 SMP": the response is
  "Linux #1 SMP".
\<close>

theorem platform_version_format_witness:
  "cozy_data_plugin_handle_method_call \<lparr>parent_instance = GObject\<rparr> \<lparr>method_name = ''getPlatformVersion'', method_args = FlValueNull, response_handle = 1\<rparr>
     \<lparr>uname_results = sconst (UnameOk \<lparr>k_sysname = uts_field_of ''Linux'', k_nodename = uts_field_of ''host'',
          k_release = uts_field_of ''5.15.0-generic'', k_version = uts_field_of ''#1 SMP'',
          k_machine = uts_field_of ''x86_64'', k_domainname = uts_field_of ''(none)''\<rparr>), sent = []\<rparr> =
   Inr \<lparr>uname_results = sconst (UnameOk \<lparr>k_sysname = uts_field_of ''Linux'', k_nodename = uts_field_of ''host'',
          k_release = uts_field_of ''5.15.0-generic'', k_version = uts_field_of ''#1 SMP'',
          k_machine = uts_field_of ''x86_64'', k_domainname = uts_field_of ''(none)''\<rparr>),
        sent = [(1, FlMethodSuccessResponse (FlValueString ''Linux #1 SMP''))]\<rparr>"
proof -
  have v: "c_str (Rep_uts_field (uts_field_of ''#1 SMP'')) = Inr ''#1 SMP''"
    by (rule c_str_uts_field_of) (simp_all add: NUL_def)
  show ?thesis
    using platform_version_format [of
        "\<lparr>uname_results = sconst (UnameOk \<lparr>k_sysname = uts_field_of ''Linux'', k_nodename = uts_field_of ''host'',
          k_release = uts_field_of ''5.15.0-generic'', k_version = uts_field_of ''#1 SMP'',
          k_machine = uts_field_of ''x86_64'', k_domainname = uts_field_of ''(none)''\<rparr>), sent = []\<rparr>"
        "\<lparr>k_sysname = uts_field_of ''Linux'', k_nodename = uts_field_of ''host'',
          k_release = uts_field_of ''5.15.0-generic'', k_version = uts_field_of ''#1 SMP'',
          k_machine = uts_field_of ''x86_64'', k_domainname = uts_field_of ''(none)''\<rparr>" "''#1 SMP''" "\<lparr>method_name = ''getPlatformVersion'', method_args = FlValueNull, response_handle = 1\<rparr>" "\<lparr>parent_instance = GObject\<rparr>"] v
    by simp
qed

text \<open>
  The same host refutes the reading in which the string after "Linux " is the kernel
  release: the release field reads "5.15.0-generic", and the response is not
  "Linux 5.15.0-generic".
\<close>

theorem platform_version_release_counterexample:
  "c_str (Rep_uts_field (k_release \<lparr>k_sysname = uts_field_of ''Linux'', k_nodename = uts_field_of ''host'',
          k_release = uts_field_of ''5.15.0-generic'', k_version = uts_field_of ''#1 SMP'',
          k_machine = uts_field_of ''x86_64'', k_domainname = uts_field_of ''(none)''\<rparr>)) = Inr ''5.15.0-generic'' \<and>
   cozy_data_plugin_handle_method_call \<lparr>parent_instance = GObject\<rparr> \<lparr>method_name = ''getPlatformVersion'', method_args = FlValueNull, response_handle = 1\<rparr>
     \<lparr>uname_results = sconst (UnameOk \<lparr>k_sysname = uts_field_of ''Linux'', k_nodename = uts_field_of ''host'',
          k_release = uts_field_of ''5.15.0-generic'', k_version = uts_field_of ''#1 SMP'',
          k_machine = uts_field_of ''x86_64'', k_domainname = uts_field_of ''(none)''\<rparr>), sent = []\<rparr> =
   Inr \<lparr>uname_results = sconst (UnameOk \<lparr>k_sysname = uts_field_of ''Linux'', k_nodename = uts_field_of ''host'',
          k_release = uts_field_of ''5.15.0-generic'', k_version = uts_field_of ''#1 SMP'',
          k_machine = uts_field_of ''x86_64'', k_domainname = uts_field_of ''(none)''\<rparr>),
        sent = [(1, FlMethodSuccessResponse (FlValueString ''Linux #1 SMP''))]\<rparr> \<and>
   cozy_data_plugin_handle_method_call \<lparr>parent_instance = GObject\<rparr> \<lparr>method_name = ''getPlatformVersion'', method_args = FlValueNull, response_handle = 1\<rparr>
     \<lparr>uname_results = sconst (UnameOk \<lparr>k_sysname = uts_field_of ''Linux'', k_nodename = uts_field_of ''host'',
          k_release = uts_field_of ''5.15.0-generic'', k_version = uts_field_of ''#1 SMP'',
          k_machine = uts_field_of ''x86_64'', k_domainname = uts_field_of ''(none)''\<rparr>), sent = []\<rparr> \<noteq>
   Inr \<lparr>uname_results = sconst (UnameOk \<lparr>k_sysname = uts_field_of ''Linux'', k_nodename = uts_field_of ''host'',
          k_release = uts_field_of ''5.15.0-generic'', k_version = uts_field_of ''#1 SMP'',
          k_machine = uts_field_of ''x86_64'', k_domainname = uts_field_of ''(none)''\<rparr>),
        sent = [(1, FlMethodSuccessResponse (FlValueString ''Linux 5.15.0-generic''))]\<rparr>"
proof -
  have r: "c_str (Rep_uts_field (uts_field_of ''5.15.0-generic'')) = Inr ''5.15.0-generic''"
    by (rule c_str_uts_field_of) (simp_all add: NUL_def)
  have v: "takeWhile (\<lambda>c. c \<noteq> NUL) (Rep_uts_field (uts_field_of ''#1 SMP'')) = ''#1 SMP''"
    by (rule takeWhile_uts_field_of) (simp_all add: NUL_def)
  show ?thesis
    using r v
    by (simp add: handle_method_call_eq strcmp_getPlatformVersion uname_def copy_to_user_def
        del: strcmp.simps)
qed

text \<open>
  C9. The payload is built from the \<^verbatim>\<open>version\<close> field of the structure that the uname
  call leaves behind, not from its \<^verbatim>\<open>release\<close> field: whatever the call does, with
  \<open>u\<close> the structure after it, the query returns the success response with "Linux "
  followed by the C string in \<open>version u\<close>.
\<close>

theorem payload_from_version_field:
  assumes "uname utsname_zero w = ((rc, u), w')"
  shows "get_platform_version w =
           Inr (FlMethodSuccessResponse
                  (FlValueString (''Linux '' @ takeWhile (\<lambda>c. c \<noteq> NUL) (version u))),
                w')"
proof -
  have "w' = w\<lparr>uname_results := stl (uname_results w)\<rparr>"
    using snd_uname [of utsname_zero w] assms by simp
  then show ?thesis
    using assms by (simp add: get_platform_version_eq)
qed

text \<open>
  On the host with release "5.15.0-generic" and version "#1 SMP" the payload is
  "Linux #1 SMP".
\<close>

theorem payload_from_version_field_witness:
  "get_platform_version \<lparr>uname_results = sconst (UnameOk \<lparr>k_sysname = uts_field_of ''Linux'', k_nodename = uts_field_of ''host'',
          k_release = uts_field_of ''5.15.0-generic'', k_version = uts_field_of ''#1 SMP'',
          k_machine = uts_field_of ''x86_64'', k_domainname = uts_field_of ''(none)''\<rparr>), sent = [(4, FlMethodNotImplementedResponse)]\<rparr> =
   Inr (FlMethodSuccessResponse (FlValueString ''Linux #1 SMP''),
        \<lparr>uname_results = sconst (UnameOk \<lparr>k_sysname = uts_field_of ''Linux'', k_nodename = uts_field_of ''host'',
          k_release = uts_field_of ''5.15.0-generic'', k_version = uts_field_of ''#1 SMP'',
          k_machine = uts_field_of ''x86_64'', k_domainname = uts_field_of ''(none)''\<rparr>), sent = [(4, FlMethodNotImplementedResponse)]\<rparr>)"
proof -
  have v: "takeWhile (\<lambda>c. c \<noteq> NUL) (Rep_uts_field (uts_field_of ''#1 SMP'')) = ''#1 SMP''"
    by (rule takeWhile_uts_field_of) (simp_all add: NUL_def)
  have u: "uname utsname_zero
             \<lparr>uname_results = sconst (UnameOk \<lparr>k_sysname = uts_field_of ''Linux'', k_nodename = uts_field_of ''host'',
          k_release = uts_field_of ''5.15.0-generic'', k_version = uts_field_of ''#1 SMP'',
          k_machine = uts_field_of ''x86_64'', k_domainname = uts_field_of ''(none)''\<rparr>), sent = [(4, FlMethodNotImplementedResponse)]\<rparr> =
           ((0, copy_to_user \<lparr>k_sysname = uts_field_of ''Linux'', k_nodename = uts_field_of ''host'',
          k_release = uts_field_of ''5.15.0-generic'', k_version = uts_field_of ''#1 SMP'',
          k_machine = uts_field_of ''x86_64'', k_domainname = uts_field_of ''(none)''\<rparr>),
            \<lparr>uname_results = sconst (UnameOk \<lparr>k_sysname = uts_field_of ''Linux'', k_nodename = uts_field_of ''host'',
          k_release = uts_field_of ''5.15.0-generic'', k_version = uts_field_of ''#1 SMP'',
          k_machine = uts_field_of ''x86_64'', k_domainname = uts_field_of ''(none)''\<rparr>), sent = [(4, FlMethodNotImplementedResponse)]\<rparr>)"
    by (simp add: uname_def)
  show ?thesis
    using payload_from_version_field [OF u] v by (simp add: copy_to_user_def)
qed

text \<open>
  C7. When the uname call fails, or succeeds with an empty version string, the query
  still returns a success response, with the string "Linux " (an empty version segment).
  No fault and no error response arise, and exactly one uname outcome is consumed: the
  call is not tried again. The handler sends that success response and nothing else.
\<close>

theorem version_query_failure_is_success:
  assumes "shd (uname_results w) = UnameFails \<or>
           (\<exists>k. shd (uname_results w) = UnameOk k \<and>
                c_str (Rep_uts_field (k_version k)) = Inr [])"
  shows "get_platform_version w =
           Inr (FlMethodSuccessResponse (FlValueString ''Linux ''),
                w\<lparr>uname_results := stl (uname_results w)\<rparr>) \<and>
         cozy_data_plugin_handle_method_call self
           \<lparr>method_name = ''getPlatformVersion'', method_args = args, response_handle = h\<rparr> w =
           Inr (w\<lparr>uname_results := stl (uname_results w),
                  sent := sent w @
                    [(h, FlMethodSuccessResponse (FlValueString ''Linux ''))]\<rparr>)"
proof -
  have "takeWhile (\<lambda>c. c \<noteq> NUL) (version (snd (fst (uname utsname_zero w)))) = []"
    using assms
  proof
    assume "shd (uname_results w) = UnameFails"
    then show ?thesis
      by (simp add: uname_def utsname_zero_def UTSNAME_LENGTH_def)
  next
    assume "\<exists>k. shd (uname_results w) = UnameOk k \<and>
                c_str (Rep_uts_field (k_version k)) = Inr []"
    then obtain k where k: "shd (uname_results w) = UnameOk k"
      and e: "c_str (Rep_uts_field (k_version k)) = Inr []"
      by blast
    from e have "takeWhile (\<lambda>c. c \<noteq> NUL) (Rep_uts_field (k_version k)) = []"
      using c_str_Rep_uts_field [of "k_version k"] by simp
    with k show ?thesis
      by (simp add: uname_def copy_to_user_def)
  qed
  then show ?thesis
    by (simp add: get_platform_version_eq handle_method_call_eq strcmp_getPlatformVersion
        del: strcmp.simps)
qed

text \<open>
  A failing call followed by calls that would succeed: the answer is "Linux " and the
  later outcomes are left untouched. A successful call with an empty version field gives
  the same answer.
\<close>

theorem version_query_failure_is_success_witness:
  "get_platform_version \<lparr>uname_results = UnameFails ## sconst (UnameOk \<lparr>k_sysname = uts_field_of ''Linux'', k_nodename = uts_field_of ''host'',
          k_release = uts_field_of ''5.15.0-generic'', k_version = uts_field_of ''#1 SMP'',
          k_machine = uts_field_of ''x86_64'', k_domainname = uts_field_of ''(none)''\<rparr>), sent = []\<rparr> =
     Inr (FlMethodSuccessResponse (FlValueString ''Linux ''),
          \<lparr>uname_results = sconst (UnameOk \<lparr>k_sysname = uts_field_of ''Linux'', k_nodename = uts_field_of ''host'',
          k_release = uts_field_of ''5.15.0-generic'', k_version = uts_field_of ''#1 SMP'',
          k_machine = uts_field_of ''x86_64'', k_domainname = uts_field_of ''(none)''\<rparr>), sent = []\<rparr>) \<and>
   cozy_data_plugin_handle_method_call \<lparr>parent_instance = GObject\<rparr> \<lparr>method_name = ''getPlatformVersion'', method_args = FlValueNull, response_handle = 1\<rparr>
     \<lparr>uname_results = UnameFails ## sconst (UnameOk \<lparr>k_sysname = uts_field_of ''Linux'', k_nodename = uts_field_of ''host'',
          k_release = uts_field_of ''5.15.0-generic'', k_version = uts_field_of ''#1 SMP'',
          k_machine = uts_field_of ''x86_64'', k_domainname = uts_field_of ''(none)''\<rparr>), sent = []\<rparr> =
     Inr \<lparr>uname_results = sconst (UnameOk \<lparr>k_sysname = uts_field_of ''Linux'', k_nodename = uts_field_of ''host'',
          k_release = uts_field_of ''5.15.0-generic'', k_version = uts_field_of ''#1 SMP'',
          k_machine = uts_field_of ''x86_64'', k_domainname = uts_field_of ''(none)''\<rparr>),
          sent = [(1, FlMethodSuccessResponse (FlValueString ''Linux ''))]\<rparr> \<and>
   get_platform_version
     \<lparr>uname_results = sconst (UnameOk (\<lparr>k_sysname = uts_field_of ''Linux'', k_nodename = uts_field_of ''host'',
          k_release = uts_field_of ''5.15.0-generic'', k_version = uts_field_of ''#1 SMP'',
          k_machine = uts_field_of ''x86_64'', k_domainname = uts_field_of ''(none)''\<rparr>\<lparr>k_version := uts_field_of []\<rparr>)), sent = []\<rparr> =
     Inr (FlMethodSuccessResponse (FlValueString ''Linux ''),
          \<lparr>uname_results = sconst (UnameOk (\<lparr>k_sysname = uts_field_of ''Linux'', k_nodename = uts_field_of ''host'',
          k_release = uts_field_of ''5.15.0-generic'', k_version = uts_field_of ''#1 SMP'',
          k_machine = uts_field_of ''x86_64'', k_domainname = uts_field_of ''(none)''\<rparr>\<lparr>k_version := uts_field_of []\<rparr>)), sent = []\<rparr>)"
proof -
  have e: "c_str (Rep_uts_field (uts_field_of [])) = Inr []"
    by (rule c_str_uts_field_of) simp_all
  show ?thesis
    using version_query_failure_is_success [of
        "\<lparr>uname_results = UnameFails ## sconst (UnameOk \<lparr>k_sysname = uts_field_of ''Linux'', k_nodename = uts_field_of ''host'',
          k_release = uts_field_of ''5.15.0-generic'', k_version = uts_field_of ''#1 SMP'',
          k_machine = uts_field_of ''x86_64'', k_domainname = uts_field_of ''(none)''\<rparr>), sent = []\<rparr>"
        "\<lparr>parent_instance = GObject\<rparr>" FlValueNull 1]
      version_query_failure_is_success [of
        "\<lparr>uname_results = sconst (UnameOk (\<lparr>k_sysname = uts_field_of ''Linux'', k_nodename = uts_field_of ''host'',
          k_release = uts_field_of ''5.15.0-generic'', k_version = uts_field_of ''#1 SMP'',
          k_machine = uts_field_of ''x86_64'', k_domainname = uts_field_of ''(none)''\<rparr>\<lparr>k_version := uts_field_of []\<rparr>)), sent = []\<rparr>"
        "\<lparr>parent_instance = GObject\<rparr>" FlValueNull 1] e
    by simp
qed


section \<open>One response per call\<close>

text \<open>
  C4. Every call, on either branch of the dispatch, adds exactly one response to what
  the channel has sent, under the handle of that call; and a sequence of calls delivered
  one after the other leaves exactly one response per call, in the order of the calls.
\<close>

theorem exactly_one_response:
  "(\<exists>w' r. cozy_data_plugin_handle_method_call self method_call w = Inr w' \<and>
           sent w' = sent w @ [(response_handle method_call, r)]) \<and>
   (\<exists>w'. deliver_calls channel self calls w = Inr w' \<and>
         map fst (sent w') = map fst (sent w) @ map response_handle calls)"
  using handle_method_call_sent [of self method_call w]
    deliver_calls_handles [of channel self calls w]
  by blast

text \<open>
  C5. The one response a call produces is either a success response carrying a string or
  the not-implemented response; it is never an error response.
\<close>

theorem response_shapes:
  "\<exists>w' r. cozy_data_plugin_handle_method_call self method_call w = Inr w' \<and>
          sent w' = sent w @ [(response_handle method_call, r)] \<and>
          ((\<exists>s. r = FlMethodSuccessResponse (FlValueString s)) \<or>
           r = FlMethodNotImplementedResponse) \<and>
          kind_of r \<noteq> Error"
proof -
  obtain w' r where
    h: "cozy_data_plugin_handle_method_call self method_call w = Inr w'"
    and s: "sent w' = sent w @ [(response_handle method_call, r)]"
    and k: "(\<exists>s. r = FlMethodSuccessResponse (FlValueString s)) \<or>
            r = FlMethodNotImplementedResponse"
    using handle_method_call_sent [of self method_call w] by blast
  from k have "kind_of r \<noteq> Error"
    by auto
  with h s k show ?thesis
    by blast
qed

text \<open>
  C6. The kind of the response depends on the method name alone. Two calls with the same
  name get responses of the same kind, whatever their arguments, their handles, the plugin
  instances, the operating system's answers, and the calls delivered before each of them.
  The handler's whole effect on the world is independent of the instance and of the
  argument payload, and the instance has no field in which a call could leave anything.
\<close>

theorem dispatch_kind_by_name:
  assumes "method_name call1 = method_name call2"
    and "deliver_calls channel1 plugin1 earlier1 w1 = Inr v1"
    and "deliver_calls channel2 plugin2 earlier2 w2 = Inr v2"
  shows "\<exists>v1' r1 v2' r2.
           cozy_data_plugin_handle_method_call self1 call1 v1 = Inr v1' \<and>
           sent v1' = sent v1 @ [(response_handle call1, r1)] \<and>
           cozy_data_plugin_handle_method_call self2 call2 v2 = Inr v2' \<and>
           sent v2' = sent v2 @ [(response_handle call2, r2)] \<and>
           kind_of r1 = kind_of r2 \<and>
           cozy_data_plugin_handle_method_call self2 (call1\<lparr>method_args := args\<rparr>) v1 =
             Inr v1'"
proof -
  obtain v1' r1 where
    a: "cozy_data_plugin_handle_method_call self1 call1 v1 = Inr v1'"
       "sent v1' = sent v1 @ [(response_handle call1, r1)]"
       "kind_of r1 = (if strcmp (method_name call1) ''getPlatformVersion'' = 0
                      then Success else NotImplemented)"
    using handle_method_call_kind [of self1 call1 v1] by blast
  obtain v2' r2 where
    b: "cozy_data_plugin_handle_method_call self2 call2 v2 = Inr v2'"
       "sent v2' = sent v2 @ [(response_handle call2, r2)]"
       "kind_of r2 = (if strcmp (method_name call2) ''getPlatformVersion'' = 0
                      then Success else NotImplemented)"
    using handle_method_call_kind [of self2 call2 v2] by blast
  have k: "kind_of r1 = kind_of r2"
    using a(3) b(3) assms(1) by simp
  have "cozy_data_plugin_handle_method_call self2 (call1\<lparr>method_args := args\<rparr>) v1 =
      cozy_data_plugin_handle_method_call self1 call1 v1"
    by (simp add: handle_method_call_eq del: strcmp.simps)
  with a(1) have i: "cozy_data_plugin_handle_method_call self2 (call1\<lparr>method_args := args\<rparr>) v1 =
      Inr v1'"
    by simp
  have "cozy_data_plugin_handle_method_call self1 call1 v1 = Inr v1' \<and>
        sent v1' = sent v1 @ [(response_handle call1, r1)] \<and>
        cozy_data_plugin_handle_method_call self2 call2 v2 = Inr v2' \<and>
        sent v2' = sent v2 @ [(response_handle call2, r2)] \<and>
        kind_of r1 = kind_of r2 \<and>
        cozy_data_plugin_handle_method_call self2 (call1\<lparr>method_args := args\<rparr>) v1 =
          Inr v1'"
    using a(1,2) b(1,2) k i by simp
  then show ?thesis
    by (intro exI)
qed

text \<open>
  Two "getPlatformVersion" calls: one first in its process, on a host whose uname
  succeeds; the other after a "ping" and a "getPlatformVersion", on a host whose uname
  fails, with another payload and another handle.
\<close>

theorem dispatch_kind_by_name_witness:
  "\<exists>v1' r1 v2' r2.
     cozy_data_plugin_handle_method_call \<lparr>parent_instance = GObject\<rparr>
       \<lparr>method_name = ''getPlatformVersion'', method_args = FlValueNull, response_handle = 1\<rparr>
       \<lparr>uname_results = sconst (UnameOk \<lparr>k_sysname = uts_field_of ''Linux'', k_nodename = uts_field_of ''host'',
          k_release = uts_field_of ''5.15.0-generic'', k_version = uts_field_of ''#1 SMP'',
          k_machine = uts_field_of ''x86_64'', k_domainname = uts_field_of ''(none)''\<rparr>), sent = []\<rparr> = Inr v1' \<and>
     sent v1' =
       sent \<lparr>uname_results = sconst (UnameOk \<lparr>k_sysname = uts_field_of ''Linux'', k_nodename = uts_field_of ''host'',
          k_release = uts_field_of ''5.15.0-generic'', k_version = uts_field_of ''#1 SMP'',
          k_machine = uts_field_of ''x86_64'', k_domainname = uts_field_of ''(none)''\<rparr>), sent = []\<rparr> @
       [(response_handle \<lparr>method_name = ''getPlatformVersion'', method_args = FlValueNull, response_handle = 1\<rparr>, r1)] \<and>
     cozy_data_plugin_handle_method_call \<lparr>parent_instance = GObject\<rparr>
       \<lparr>method_name = ''getPlatformVersion'', method_args = FlValueInt 5, response_handle = 9\<rparr>
       \<lparr>uname_results = sconst UnameFails,
        sent = [(3, FlMethodNotImplementedResponse),
                (4, FlMethodSuccessResponse (FlValueString ''Linux ''))]\<rparr> = Inr v2' \<and>
     sent v2' =
       sent \<lparr>uname_results = sconst UnameFails,
        sent = [(3, FlMethodNotImplementedResponse),
                (4, FlMethodSuccessResponse (FlValueString ''Linux ''))]\<rparr> @
       [(response_handle \<lparr>method_name = ''getPlatformVersion'', method_args = FlValueInt 5, response_handle = 9\<rparr>, r2)] \<and>
     kind_of r1 = kind_of r2 \<and>
     cozy_data_plugin_handle_method_call \<lparr>parent_instance = GObject\<rparr>
       (\<lparr>method_name = ''getPlatformVersion'', method_args = FlValueNull, response_handle = 1\<rparr>\<lparr>method_args := FlValueList []\<rparr>)
       \<lparr>uname_results = sconst (UnameOk \<lparr>k_sysname = uts_field_of ''Linux'', k_nodename = uts_field_of ''host'',
          k_release = uts_field_of ''5.15.0-generic'', k_version = uts_field_of ''#1 SMP'',
          k_machine = uts_field_of ''x86_64'', k_domainname = uts_field_of ''(none)''\<rparr>), sent = []\<rparr> = Inr v1'"
proof -
  have d1: "deliver_calls \<lparr>channel_name = ''cozy_data'', channel_codec = FlStandardMethodCodec\<rparr> \<lparr>parent_instance = GObject\<rparr> []
              \<lparr>uname_results = sconst (UnameOk \<lparr>k_sysname = uts_field_of ''Linux'', k_nodename = uts_field_of ''host'',
          k_release = uts_field_of ''5.15.0-generic'', k_version = uts_field_of ''#1 SMP'',
          k_machine = uts_field_of ''x86_64'', k_domainname = uts_field_of ''(none)''\<rparr>), sent = []\<rparr> =
            Inr \<lparr>uname_results = sconst (UnameOk \<lparr>k_sysname = uts_field_of ''Linux'', k_nodename = uts_field_of ''host'',
          k_release = uts_field_of ''5.15.0-generic'', k_version = uts_field_of ''#1 SMP'',
          k_machine = uts_field_of ''x86_64'', k_domainname = uts_field_of ''(none)''\<rparr>), sent = []\<rparr>"
    by simp
  have d2: "deliver_calls \<lparr>channel_name = ''cozy_data'', channel_codec = FlStandardMethodCodec\<rparr> \<lparr>parent_instance = GObject\<rparr>
              [\<lparr>method_name = ''ping'', method_args = FlValueNull, response_handle = 3\<rparr>,
               \<lparr>method_name = ''getPlatformVersion'', method_args = FlValueNull, response_handle = 4\<rparr>]
              \<lparr>uname_results = sconst UnameFails, sent = []\<rparr> =
            Inr \<lparr>uname_results = sconst UnameFails,
        sent = [(3, FlMethodNotImplementedResponse),
                (4, FlMethodSuccessResponse (FlValueString ''Linux ''))]\<rparr>"
    by (simp add: method_call_cb_def COZY_DATA_PLUGIN_def handle_method_call_eq uname_def
        utsname_zero_def UTSNAME_LENGTH_def NUL_def)
  have n: "method_name \<lparr>method_name = ''getPlatformVersion'', method_args = FlValueNull, response_handle = 1\<rparr> =
      method_name \<lparr>method_name = ''getPlatformVersion'', method_args = FlValueInt 5, response_handle = 9\<rparr>"
    by simp
  show ?thesis
    using dispatch_kind_by_name [OF n d1 d2, of "\<lparr>parent_instance = GObject\<rparr>"
        "\<lparr>parent_instance = GObject\<rparr>" "FlValueList []"] .
qed

text \<open>
  C10. On every path the local \<^verbatim>\<open>response\<close> holds a response object, not the null
  pointer, when it is handed to \<^verbatim>\<open>fl_method_call_respond\<close>. When the uname call fails
  the structure is still the zeroed one, so the \<^verbatim>\<open>version\<close> array is terminated, the
  formatted string is defined (it is "Linux "), and the query returns its success
  response.
\<close>

theorem response_assigned_and_payload_defined:
  "(\<exists>r w'. handle_method_call_response self method_call w = Inr (Some r, w')) \<and>
   (shd (uname_results w) = UnameFails \<longrightarrow>
      fst (uname utsname_zero w) = (- 1, utsname_zero) \<and>
      g_strdup_printf ''Linux %s'' (version (snd (fst (uname utsname_zero w)))) =
        Inr ''Linux '' \<and>
      get_platform_version w =
        Inr (FlMethodSuccessResponse (FlValueString ''Linux ''),
             w\<lparr>uname_results := stl (uname_results w)\<rparr>))"
proof -
  have 1: "\<exists>r w'. handle_method_call_response self method_call w = Inr (Some r, w')"
    by (simp add: handle_method_call_response_def get_platform_version_eq
        del: strcmp.simps)
  have 2: "get_platform_version w =
        Inr (FlMethodSuccessResponse (FlValueString ''Linux ''),
             w\<lparr>uname_results := stl (uname_results w)\<rparr>)"
    if "shd (uname_results w) = UnameFails"
    using that
    by (simp add: get_platform_version_eq uname_def utsname_zero_def UTSNAME_LENGTH_def)
  have 3: "g_strdup_printf ''Linux %s'' (version (snd (fst (uname utsname_zero w)))) =
        Inr ''Linux ''"
    if "shd (uname_results w) = UnameFails"
    using that c_str_zero_array
    by (simp add: g_strdup_printf_def uname_def utsname_zero_def)
  show ?thesis
    using 1 2 3 uname_fails [of w utsname_zero] by blast
qed

theorem response_assigned_and_payload_defined_witness:
  "(\<exists>r w'. handle_method_call_response \<lparr>parent_instance = GObject\<rparr> \<lparr>method_name = ''getPlatformVersion'', method_args = FlValueNull, response_handle = 1\<rparr>
             \<lparr>uname_results = UnameFails ## sconst (UnameOk \<lparr>k_sysname = uts_field_of ''Linux'', k_nodename = uts_field_of ''host'',
          k_release = uts_field_of ''5.15.0-generic'', k_version = uts_field_of ''#1 SMP'',
          k_machine = uts_field_of ''x86_64'', k_domainname = uts_field_of ''(none)''\<rparr>), sent = []\<rparr> = Inr (Some r, w')) \<and>
   g_strdup_printf ''Linux %s''
     (version (snd (fst (uname utsname_zero
        \<lparr>uname_results = UnameFails ## sconst (UnameOk \<lparr>k_sysname = uts_field_of ''Linux'', k_nodename = uts_field_of ''host'',
          k_release = uts_field_of ''5.15.0-generic'', k_version = uts_field_of ''#1 SMP'',
          k_machine = uts_field_of ''x86_64'', k_domainname = uts_field_of ''(none)''\<rparr>), sent = []\<rparr>)))) = Inr ''Linux '' \<and>
   get_platform_version \<lparr>uname_results = UnameFails ## sconst (UnameOk \<lparr>k_sysname = uts_field_of ''Linux'', k_nodename = uts_field_of ''host'',
          k_release = uts_field_of ''5.15.0-generic'', k_version = uts_field_of ''#1 SMP'',
          k_machine = uts_field_of ''x86_64'', k_domainname = uts_field_of ''(none)''\<rparr>), sent = []\<rparr> =
     Inr (FlMethodSuccessResponse (FlValueString ''Linux ''),
          \<lparr>uname_results = sconst (UnameOk \<lparr>k_sysname = uts_field_of ''Linux'', k_nodename = uts_field_of ''host'',
          k_release = uts_field_of ''5.15.0-generic'', k_version = uts_field_of ''#1 SMP'',
          k_machine = uts_field_of ''x86_64'', k_domainname = uts_field_of ''(none)''\<rparr>), sent = []\<rparr>)"
  using response_assigned_and_payload_defined [of
      "\<lparr>parent_instance = GObject\<rparr>" "\<lparr>method_name = ''getPlatformVersion'', method_args = FlValueNull, response_handle = 1\<rparr>"
      "\<lparr>uname_results = UnameFails ## sconst (UnameOk \<lparr>k_sysname = uts_field_of ''Linux'', k_nodename = uts_field_of ''host'',
          k_release = uts_field_of ''5.15.0-generic'', k_version = uts_field_of ''#1 SMP'',
          k_machine = uts_field_of ''x86_64'', k_domainname = uts_field_of ''(none)''\<rparr>), sent = []\<rparr>"]
  by (simp add: uname_def)


section \<open>Registration\<close>

text \<open>
  C8. Registration sets, under the channel name "cozy\_data" and under no other name, a
  handler made of the callback \<^verbatim>\<open>method_call_cb\<close>, a channel of that name with the
  standard method codec, and a fresh plugin instance as user data; every other entry of
  the messenger is kept. The callback is the method-call handler applied to its user
  data.
\<close>

theorem register_installs_handler:
  "messenger (cozy_data_plugin_register_with_registrar registrar) =
     (messenger registrar)
       (''cozy_data'' \<mapsto>
          \<lparr>handler_cb = method_call_cb,
           handler_channel =
             \<lparr>channel_name = ''cozy_data'', channel_codec = FlStandardMethodCodec\<rparr>,
           handler_user_data = \<lparr>parent_instance = GObject\<rparr>\<rparr>) \<and>
   method_call_cb channel method_call user_data w =
     cozy_data_plugin_handle_method_call user_data method_call w"
  by (simp add: cozy_data_plugin_register_with_registrar_def
      fl_method_channel_set_method_call_handler_def fl_method_channel_new_def
      fl_plugin_registrar_get_messenger_def fl_standard_method_codec_new_def
      COZY_DATA_PLUGIN_def g_object_new_cozy_data_plugin_def method_call_cb_def)

end
